theory Spec2Isabelle
  imports Main "HOL-Library.AList" "HOL-Library.Sublist"
begin

section \<open>Values handled by the service worker (src/sw.js)\<close>

text \<open>
  The worker talks to three platform services: the network (\<open>fetch\<close>), the cache
  storage (\<open>caches\<close>) and the worker's own lifecycle (\<open>skipWaiting\<close>,
  \<open>clients.claim\<close>). Each asynchronous call yields a promise; a settled promise
  is either fulfilled with a value or rejected with an error. An \<open>await\<close> inside
  \<open>try\<close> turns a rejection into the \<open>catch\<close> branch.
\<close>

datatype error = TypeError string

datatype 'a promise = Fulfilled 'a | Rejected error

text \<open>A response snapshot; \<open>response.ok\<close> is the platform's reading of the status.\<close>

record response =
  status :: nat
  statusText :: string
  headers :: "(string \<times> string) list"
  body :: string

definition ok :: "response \<Rightarrow> bool" where
  "ok r = (200 \<le> status r \<and> status r \<le> 299)"

text \<open>
  An intercepted request: its absolute URL, its method, its mode and its headers
  (header names in lower case, as the platform's \<open>Headers\<close> object keeps them).
\<close>

record request =
  url :: string
  req_method :: string
  mode :: string
  req_headers :: "(string \<times> string) list"

definition headers_get :: "(string \<times> string) list \<Rightarrow> string \<Rightarrow> string option" where
  "headers_get hs name = map_of hs name"

text \<open>The fields of \<open>new URL(request.url)\<close> that the worker reads.\<close>

record url_parts =
  protocol :: string
  hostname :: string
  origin :: string

text \<open>
  What the platform decides and the worker cannot: the outcome of a network call, the
  URL parser, the worker's own origin (\<open>location.origin\<close>), the resolution of a
  relative URL against the worker's location, and whether \<open>cache.put\<close> refuses a
  pair (a response that is not cacheable).
\<close>

record world =
  fetch :: "request \<Rightarrow> response promise"
  URL :: "string \<Rightarrow> url_parts"
  location_origin :: string
  resolve :: "string \<Rightarrow> string"
  put_rejects :: "request \<Rightarrow> response \<Rightarrow> bool"

text \<open>
  The mutable state: the cache storage (named stores in creation order, each an
  association list from request URL to response), the network calls made so far, and
  whether \<open>skipWaiting\<close> and \<open>clients.claim\<close> have been called.
\<close>

type_synonym cache = "(string \<times> response) list"

record sw_state =
  caches :: "(string \<times> cache) list"
  fetched :: "request list"
  skipWaitingCalled :: bool
  claimCalled :: bool

section \<open>Constants of the worker\<close>

definition CACHE_NAME :: string where
  "CACHE_NAME = ''zaq_myapp_v5''"

definition API_CACHE_NAME :: string where
  "API_CACHE_NAME = ''zaq_api_cache_v3''"

definition urlsToCache :: "string list" where
  "urlsToCache =
     [''./'', ''./index.html'', ''./about.html'', ''./contact.html'', ''./main.css'',
      ''./manifest.json'', ''./sw.js'', ''./app.js'', ''./images/icons/favicon.ico'',
      ''./images/icons/favicon.svg'', ''./images/icons/site.webmanifest'',
      ''./offline.html'']"

definition API_ENDPOINTS :: "string list" where
  "API_ENDPOINTS = [''https://jsonplaceholder.typicode.com/posts?_limit=5'']"

section \<open>Platform primitives\<close>

text \<open>\<open>new Request(url)\<close>: a GET request for the resolved URL, no headers set.\<close>

definition Request :: "world \<Rightarrow> string \<Rightarrow> request" where
  "Request w u = \<lparr>url = resolve w u, req_method = ''GET'', mode = ''cors'', req_headers = []\<rparr>"

text \<open>\<open>fetch(request)\<close>: the world's outcome; the call is recorded.\<close>

definition net_fetch :: "world \<Rightarrow> sw_state \<Rightarrow> request \<Rightarrow> response promise \<times> sw_state" where
  "net_fetch w st req = (fetch w req, st\<lparr>fetched := fetched st @ [req]\<rparr>)"

text \<open>\<open>caches.open(name)\<close>: the store is created when it does not exist yet.\<close>

definition caches_open :: "string \<Rightarrow> sw_state \<Rightarrow> sw_state" where
  "caches_open name st =
     (if name \<in> set (map fst (caches st)) then st
      else st\<lparr>caches := caches st @ [(name, [])]\<rparr>)"

text \<open>\<open>caches.delete(name)\<close> removes the store of that name.\<close>

definition caches_delete :: "string \<Rightarrow> sw_state \<Rightarrow> sw_state" where
  "caches_delete name st = st\<lparr>caches := AList.delete name (caches st)\<rparr>"

text \<open>
  \<open>caches.match(key)\<close> looks the key up in every store, in creation order, and
  yields the first entry found, or \<open>undefined\<close> (\<open>None\<close>). The call returns
  a promise.
\<close>

fun storage_match :: "(string \<times> cache) list \<Rightarrow> string \<Rightarrow> response option" where
  "storage_match [] k = None"
| "storage_match ((n, c) # cs) k =
     (case map_of c k of Some r \<Rightarrow> Some r | None \<Rightarrow> storage_match cs k)"

definition caches_match :: "sw_state \<Rightarrow> string \<Rightarrow> response option promise" where
  "caches_match st k = Fulfilled (storage_match (caches st) k)"

text \<open>
  \<open>cache.put(request, response)\<close> on the store \<open>name\<close>: rejected when the
  platform refuses the pair, otherwise the entry of the request's URL is overwritten.
\<close>

definition cache_put ::
  "world \<Rightarrow> string \<Rightarrow> request \<Rightarrow> response \<Rightarrow> sw_state \<Rightarrow> unit promise \<times> sw_state" where
  "cache_put w name req resp st =
     (if put_rejects w req resp then (Rejected (TypeError ''put''), st)
      else (Fulfilled (),
            st\<lparr>caches := AList.map_entry name (AList.update (url req) resp) (caches st)\<rparr>))"

text \<open>\<open>response.clone()\<close>: an independent copy of the same snapshot.\<close>

definition clone :: "response \<Rightarrow> response" where
  "clone r = r"

text \<open>
  \<open>cache.addAll(urls)\<close>: every URL is requested; when one call fails or answers
  with a status that is not ok the promise is rejected and nothing is stored, otherwise
  all the responses are stored.
\<close>

fun fetch_all :: "world \<Rightarrow> request list \<Rightarrow> (request \<times> response) list option" where
  "fetch_all w [] = Some []"
| "fetch_all w (r # rs) =
     (case fetch w r of
        Rejected e \<Rightarrow> None
      | Fulfilled resp \<Rightarrow>
          if ok resp then map_option ((#) (r, resp)) (fetch_all w rs) else None)"

definition store_entry :: "string \<Rightarrow> request \<times> response \<Rightarrow> sw_state \<Rightarrow> sw_state" where
  "store_entry name e st =
     st\<lparr>caches := AList.map_entry name (AList.update (url (fst e)) (snd e)) (caches st)\<rparr>"

definition cache_addAll ::
  "world \<Rightarrow> string \<Rightarrow> string list \<Rightarrow> sw_state \<Rightarrow> unit promise \<times> sw_state" where
  "cache_addAll w name urls st =
     (let requests = map (Request w) urls;
          st1 = st\<lparr>fetched := fetched st @ requests\<rparr>
      in case fetch_all w requests of
           None \<Rightarrow> (Rejected (TypeError ''addAll''), st1)
         | Some entries \<Rightarrow> (Fulfilled (), fold (store_entry name) entries st1))"

text \<open>\<open>Promise.all\<close>: the first rejection, or fulfilment when there is none.\<close>

fun promise_all :: "unit promise list \<Rightarrow> unit promise" where
  "promise_all [] = Fulfilled ()"
| "promise_all (Fulfilled u # ps) = promise_all ps"
| "promise_all (Rejected e # ps) = Rejected e"

text \<open>\<open>p.catch(handler)\<close> where the handler returns nothing: the rejection is absorbed.\<close>

definition promise_catch :: "unit promise \<Rightarrow> unit promise" where
  "promise_catch p = (case p of Fulfilled u \<Rightarrow> Fulfilled u | Rejected e \<Rightarrow> Fulfilled ())"

text \<open>
  \<open>event.waitUntil(p)\<close>: the lifecycle event succeeds when \<open>p\<close> is fulfilled and
  fails (for the install event: the installation is abandoned) when \<open>p\<close> is rejected.
\<close>

definition waitUntil_fails :: "'a promise \<Rightarrow> bool" where
  "waitUntil_fails p = (case p of Fulfilled v \<Rightarrow> False | Rejected e \<Rightarrow> True)"

section \<open>Lifecycle: install and activate\<close>

text \<open>
  The install listener (lines 25-47). The two branches of \<open>Promise.all\<close> are
  written in the order of the source; the second carries its own \<open>catch\<close>. The
  chain ends in \<open>.then(skipWaiting).catch(log)\<close>, and the promise of that chain is
  what \<open>waitUntil\<close> receives.
\<close>

definition install :: "world \<Rightarrow> sw_state \<Rightarrow> unit promise \<times> sw_state" where
  "install w st =
     (let st1 = caches_open CACHE_NAME st;
          (pA, st2) = cache_addAll w CACHE_NAME urlsToCache st1;
          st3 = caches_open API_CACHE_NAME st2;
          (pB0, st4) = cache_addAll w API_CACHE_NAME API_ENDPOINTS st3;
          pB = promise_catch pB0
      in case promise_all [pA, pB] of
           Fulfilled u \<Rightarrow> (Fulfilled (), st4\<lparr>skipWaitingCalled := True\<rparr>)
         | Rejected error \<Rightarrow> (Fulfilled (), st4))"

text \<open>
  The activate listener (lines 49-69): the names are enumerated, those different from
  both current names are deleted one by one, then \<open>clients.claim\<close> is called.
\<close>

definition activate :: "sw_state \<Rightarrow> unit promise \<times> sw_state" where
  "activate st =
     (let cacheNames = map fst (caches st);
          stale = filter (\<lambda>cacheName. cacheName \<noteq> CACHE_NAME \<and> cacheName \<noteq> API_CACHE_NAME)
                    cacheNames;
          st1 = fold caches_delete stale st
      in (Fulfilled (), st1\<lparr>claimCalled := True\<rparr>))"

section \<open>Request handlers\<close>

text \<open>\<open>s.includes(t)\<close>: \<open>t\<close> occurs in \<open>s\<close> as a contiguous run.\<close>

fun str_includes :: "string \<Rightarrow> string \<Rightarrow> bool" where
  "str_includes [] t = (t = [])"
| "str_includes (c # cs) t = (prefix t (c # cs) \<or> str_includes cs t)"

text \<open>
  The test \<open>request.headers.get('accept') && request.headers.get('accept').includes('text/html')\<close>:
  a missing header (\<open>null\<close>) and the empty string are both falsy.
\<close>

definition acceptsHtml :: "request \<Rightarrow> bool" where
  "acceptsHtml request =
     (case headers_get (req_headers request) ''accept'' of
        None \<Rightarrow> False
      | Some a \<Rightarrow> a \<noteq> [] \<and> str_includes a ''text/html'')"

text \<open>
  The two responses the worker builds itself: \<open>new Response(JSON.stringify([]), ...)\<close>
  (status 200 by default) and the 503 answer of the asset handler.
\<close>

definition emptyJsonResponse :: response where
  "emptyJsonResponse =
     \<lparr>status = 200, statusText = '''',
      headers = [(''Content-Type'', ''application/json'')], body = ''[]''\<rparr>"

definition offlineResponse :: response where
  "offlineResponse =
     \<lparr>status = 503, statusText = ''Service Unavailable'', headers = [],
      body = ''Offline - Service worker failed to fetch content''\<rparr>"

text \<open>
  A handler is an \<open>async\<close> function: it yields a promise of a response, or of
  \<open>undefined\<close> (\<open>None\<close>), and the state it leaves. On the success path
  the put of the clone sits in a \<open>try\<close> of its own: when it is rejected the
  \<open>catch\<close> only logs, and the network response is returned all the same.
\<close>

type_synonym handled = "response option promise \<times> sw_state"

text \<open>Lines 124-135: after a failed or non-ok network call, any store, then the empty array.\<close>

definition apiFallback :: "sw_state \<Rightarrow> request \<Rightarrow> handled" where
  "apiFallback st request =
     (case caches_match st (url request) of
        Rejected e \<Rightarrow> (Rejected e, st)
      | Fulfilled None \<Rightarrow> (Fulfilled (Some emptyJsonResponse), st)
      | Fulfilled (Some cachedResponse) \<Rightarrow> (Fulfilled (Some cachedResponse), st))"

definition handleApiRequest :: "world \<Rightarrow> sw_state \<Rightarrow> request \<Rightarrow> handled" where
  "handleApiRequest w st request =
     (case net_fetch w st request of
        (Rejected error, st1) \<Rightarrow> apiFallback st1 request
      | (Fulfilled networkResponse, st1) \<Rightarrow>
          if ok networkResponse
          then (let responseClone = clone networkResponse;
                    st2 = caches_open API_CACHE_NAME st1;
                    (putOutcome, st3) = cache_put w API_CACHE_NAME request responseClone st2
                in (Fulfilled (Some networkResponse), st3))
          else apiFallback st1 request)"

text \<open>
  Lines 163-170: the offline page is awaited and tested; when it is missing the promise
  of the index lookup is returned as it is.
\<close>

definition navigationFallback :: "world \<Rightarrow> sw_state \<Rightarrow> handled" where
  "navigationFallback w st =
     (case caches_match st (resolve w ''./offline.html'') of
        Rejected e \<Rightarrow> (Rejected e, st)
      | Fulfilled (Some fallback) \<Rightarrow> (Fulfilled (Some fallback), st)
      | Fulfilled None \<Rightarrow> (caches_match st (resolve w ''./index.html''), st))"

definition handleNavigationRequest :: "world \<Rightarrow> sw_state \<Rightarrow> request \<Rightarrow> handled" where
  "handleNavigationRequest w st request =
     (case caches_match st (url request) of
        Rejected err \<Rightarrow> navigationFallback w st
      | Fulfilled (Some cachedPage) \<Rightarrow> (Fulfilled (Some cachedPage), st)
      | Fulfilled None \<Rightarrow>
          (case net_fetch w st request of
             (Rejected err, st1) \<Rightarrow> navigationFallback w st1
           | (Fulfilled networkResponse, st1) \<Rightarrow>
               if ok networkResponse
               then (let responseClone = clone networkResponse;
                         st2 = caches_open CACHE_NAME st1;
                         (putOutcome, st3) = cache_put w CACHE_NAME request responseClone st2
                     in (Fulfilled (Some networkResponse), st3))
               else navigationFallback w st1))"

text \<open>
  Line 200 is \<open>return caches.match('./offline.html') || caches.match('./index.html')\<close>,
  with no \<open>await\<close>: the operands of \<open>||\<close> are promises. A promise is an object
  and every object is truthy, whatever the promise settles to, so \<open>||\<close> yields its
  left operand.
\<close>

definition truthy :: "'a promise \<Rightarrow> bool" where
  "truthy p = True"

definition js_or :: "'a promise \<Rightarrow> 'a promise \<Rightarrow> 'a promise" where
  "js_or p q = (if truthy p then p else q)"

definition appFallback :: "world \<Rightarrow> sw_state \<Rightarrow> request \<Rightarrow> handled" where
  "appFallback w st request =
     (if acceptsHtml request
      then (js_or (caches_match st (resolve w ''./offline.html''))
                  (caches_match st (resolve w ''./index.html'')), st)
      else (Fulfilled (Some offlineResponse), st))"

definition handleAppRequest :: "world \<Rightarrow> sw_state \<Rightarrow> request \<Rightarrow> handled" where
  "handleAppRequest w st request =
     (case caches_match st (url request) of
        Rejected error \<Rightarrow> appFallback w st request
      | Fulfilled (Some cachedResponse) \<Rightarrow> (Fulfilled (Some cachedResponse), st)
      | Fulfilled None \<Rightarrow>
          (case net_fetch w st request of
             (Rejected error, st1) \<Rightarrow> appFallback w st1 request
           | (Fulfilled networkResponse, st1) \<Rightarrow>
               if ok networkResponse
               then (let responseClone = clone networkResponse;
                         st2 = caches_open CACHE_NAME st1;
                         (putOutcome, st3) = cache_put w CACHE_NAME request responseClone st2
                     in (Fulfilled (Some networkResponse), st3))
               else appFallback w st1 request))"

text \<open>Lines 99-101: \<open>fetch(request).catch(() => caches.match(request))\<close>.\<close>

definition defaultRequest :: "world \<Rightarrow> sw_state \<Rightarrow> request \<Rightarrow> handled" where
  "defaultRequest w st request =
     (case net_fetch w st request of
        (Rejected e, st1) \<Rightarrow> (caches_match st1 (url request), st1)
      | (Fulfilled networkResponse, st1) \<Rightarrow> (Fulfilled (Some networkResponse), st1))"

section \<open>The fetch listener\<close>

text \<open>
  Lines 71-102. The listener either returns without calling \<open>respondWith\<close>
  (\<open>None\<close>: the request is left to the browser) or answers with the promise of one
  handler.
\<close>

definition respondWith :: "handled \<Rightarrow> response option promise option \<times> sw_state" where
  "respondWith h = (Some (fst h), snd h)"

definition fetch_listener ::
  "world \<Rightarrow> sw_state \<Rightarrow> request \<Rightarrow> response option promise option \<times> sw_state" where
  "fetch_listener w st request =
     (let u = URL w (url request) in
      if protocol u = ''chrome-extension:'' \<or> protocol u = ''moz-extension:''
      then (None, st)
      else if hostname u = ''jsonplaceholder.typicode.com''
      then respondWith (handleApiRequest w st request)
      else if mode request = ''navigate'' \<or> acceptsHtml request
      then respondWith (handleNavigationRequest w st request)
      else if origin u = location_origin w
      then respondWith (handleAppRequest w st request)
      else respondWith (defaultRequest w st request))"

text \<open>
  The classes of section 4.2 of the specification, written from its words as a rule
  list read top to bottom; \<open>first_match\<close> takes the class of the first rule whose
  test holds, and \<open>strategy\<close> is what each class stands for.
\<close>

datatype request_class = Ignored | ExternalApi | Navigation | SameOriginAsset | Other

fun first_match :: "(bool \<times> request_class) list \<Rightarrow> request_class" where
  "first_match [] = Other"
| "first_match ((test, cls) # rules) = (if test then cls else first_match rules)"

definition spec_classify :: "world \<Rightarrow> request \<Rightarrow> request_class" where
  "spec_classify w request =
     first_match
       [(protocol (URL w (url request)) = ''chrome-extension:''
           \<or> protocol (URL w (url request)) = ''moz-extension:'', Ignored),
        (hostname (URL w (url request)) = ''jsonplaceholder.typicode.com'', ExternalApi),
        (mode request = ''navigate'' \<or> acceptsHtml request, Navigation),
        (origin (URL w (url request)) = location_origin w, SameOriginAsset)]"

definition spec_strategy ::
  "request_class \<Rightarrow> world \<Rightarrow> sw_state \<Rightarrow> request \<Rightarrow> response option promise option \<times> sw_state" where
  "spec_strategy cls w st request =
     (case cls of
        Ignored \<Rightarrow> (None, st)
      | ExternalApi \<Rightarrow> respondWith (handleApiRequest w st request)
      | Navigation \<Rightarrow> respondWith (handleNavigationRequest w st request)
      | SameOriginAsset \<Rightarrow> respondWith (handleAppRequest w st request)
      | Other \<Rightarrow> respondWith (defaultRequest w st request))"

section \<open>Background sync\<close>



text \<open>The entry of a URL in the store of a given name.\<close>

definition store_lookup :: "string \<Rightarrow> sw_state \<Rightarrow> string \<Rightarrow> response option" where
  "store_lookup name st k =
     (case map_of (caches st) name of None \<Rightarrow> None | Some c \<Rightarrow> map_of c k)"

section \<open>Vocabulary of the properties\<close>

text \<open>
  A network call has failed when it threw (the promise is rejected) or when it
  answered with a status that is not ok; the handlers treat both alike.
\<close>

definition network_failed :: "world \<Rightarrow> request \<Rightarrow> bool" where
  "network_failed w request =
     (case fetch w request of Rejected e \<Rightarrow> True | Fulfilled r \<Rightarrow> \<not> ok r)"

section \<open>Concrete worlds and states\<close>

text \<open>
  A small site at \<open>https://zaq.example\<close>, used to run the definitions on concrete
  inputs.
\<close>

definition ex_resolve :: "string \<Rightarrow> string" where
  "ex_resolve u = (if prefix ''./'' u then ''https://zaq.example/'' @ drop 2 u else u)"

definition ex_URL :: "string \<Rightarrow> url_parts" where
  "ex_URL u =
     (if prefix ''chrome-extension:'' u
      then \<lparr>protocol = ''chrome-extension:'', hostname = ''abcdef'',
            origin = ''chrome-extension://abcdef''\<rparr>
      else if prefix ''https://jsonplaceholder.typicode.com'' u
      then \<lparr>protocol = ''https:'', hostname = ''jsonplaceholder.typicode.com'',
            origin = ''https://jsonplaceholder.typicode.com''\<rparr>
      else if prefix ''https://zaq.example'' u
      then \<lparr>protocol = ''https:'', hostname = ''zaq.example'', origin = ''https://zaq.example''\<rparr>
      else \<lparr>protocol = ''https:'', hostname = ''cdn.example'', origin = ''https://cdn.example''\<rparr>)"

definition page :: "string \<Rightarrow> response" where
  "page b = \<lparr>status = 200, statusText = ''OK'', headers = [], body = b\<rparr>"

definition offline_world :: world where
  "offline_world =
     \<lparr>fetch = (\<lambda>r. Rejected (TypeError ''Failed to fetch'')), URL = ex_URL,
      location_origin = ''https://zaq.example'', resolve = ex_resolve,
      put_rejects = (\<lambda>r p. False)\<rparr>"

text \<open>A world where one endpoint answers and every other call throws.\<close>

definition flaky_world :: world where
  "flaky_world =
     \<lparr>fetch = (\<lambda>r. if url r = ''https://api.example/a'' then Fulfilled (page ''new a'')
                    else Rejected (TypeError ''Failed to fetch'')),
      URL = ex_URL, location_origin = ''https://zaq.example'', resolve = ex_resolve,
      put_rejects = (\<lambda>r p. False)\<rparr>"



definition state_with :: "(string \<times> cache) list \<Rightarrow> sw_state" where
  "state_with cs = \<lparr>caches = cs, fetched = [], skipWaitingCalled = False, claimCalled = False\<rparr>"

definition get_request :: "string \<Rightarrow> string \<Rightarrow> (string \<times> string) list \<Rightarrow> request" where
  "get_request u m hs = \<lparr>url = u, req_method = ''GET'', mode = m, req_headers = hs\<rparr>"

section \<open>Activation removes the stale stores\<close>

lemma caches_fold_delete:
  "caches (fold caches_delete ns st) = filter (\<lambda>(n, c). n \<notin> set ns) (caches st)"
proof (induction ns arbitrary: st)
  case Nil
  show ?case by simp
next
  case (Cons n ns)
  have "caches (caches_delete n st) = filter (\<lambda>(k, c). n \<noteq> k) (caches st)"
    by (simp add: caches_delete_def AList.delete_eq case_prod_unfold)
  then show ?case
    using Cons.IH [of "caches_delete n st"] by (auto simp: case_prod_unfold intro: filter_cong)
qed

text \<open>
  C6. Whatever stores exist, activation completes and leaves exactly the stores named
  by one of the two current version tokens, each with its contents as before and in
  the same order: the stores deleted are exactly those whose name is neither token.
\<close>

theorem activate_deletes_exactly_stale:
  "fst (activate st) = Fulfilled () \<and>
   caches (snd (activate st)) =
     filter (\<lambda>(n, c). n = CACHE_NAME \<or> n = API_CACHE_NAME) (caches st)"
proof -
  let ?stale = "filter (\<lambda>n. n \<noteq> CACHE_NAME \<and> n \<noteq> API_CACHE_NAME) (map fst (caches st))"
  have "filter (\<lambda>(n, c). n \<notin> set ?stale) (caches st) =
        filter (\<lambda>(n, c). n = CACHE_NAME \<or> n = API_CACHE_NAME) (caches st)"
    by (rule filter_cong) (auto simp: rev_image_eqI)
  then show ?thesis
    by (simp add: activate_def Let_def caches_fold_delete)
qed

text \<open>
  The version-upgrade scenario of the specification, with the worker's own tokens:
  two old stores and the two current ones; the old ones are gone.
\<close>

theorem activate_deletes_exactly_stale_witness:
  "caches (snd (activate (state_with
      [(''old_asset_v4'', [(''https://zaq.example/'', page ''v4'')]),
       (''old_api_v2'', []),
       (''zaq_myapp_v5'', [(''https://zaq.example/'', page ''v5'')]),
       (''zaq_api_cache_v3'',
          [(''https://jsonplaceholder.typicode.com/posts?_limit=5'', page ''[1]'')])]))) =
      [(''zaq_myapp_v5'', [(''https://zaq.example/'', page ''v5'')]),
       (''zaq_api_cache_v3'',
          [(''https://jsonplaceholder.typicode.com/posts?_limit=5'', page ''[1]'')])]"
  using activate_deletes_exactly_stale [of "state_with
      [(''old_asset_v4'', [(''https://zaq.example/'', page ''v4'')]),
       (''old_api_v2'', []),
       (''zaq_myapp_v5'', [(''https://zaq.example/'', page ''v5'')]),
       (''zaq_api_cache_v3'',
          [(''https://jsonplaceholder.typicode.com/posts?_limit=5'', page ''[1]'')])]"]
  by (simp add: state_with_def CACHE_NAME_def API_CACHE_NAME_def)

section \<open>Installation when the asset store cannot be filled\<close>

lemma skipWaiting_caches_open:
  "skipWaitingCalled (caches_open n st) = skipWaitingCalled st"
  by (simp add: caches_open_def)

lemma skipWaiting_fold_store:
  "skipWaitingCalled (fold (store_entry n) es st) = skipWaitingCalled st"
  by (induction es arbitrary: st) (simp_all add: store_entry_def)

lemma skipWaiting_addAll:
  "skipWaitingCalled (snd (cache_addAll w n us st)) = skipWaitingCalled st"
  by (simp add: cache_addAll_def Let_def skipWaiting_fold_store split: option.split)

text \<open>
  C1, as the code has it. When filling the asset store from \<open>urlsToCache\<close> is
  rejected, the listener's final \<open>catch\<close> absorbs the rejection: the promise handed
  to \<open>waitUntil\<close> is fulfilled, so the install event does not fail and no failure
  reaches the host; \<open>skipWaiting\<close> is not called.
\<close>

theorem install_failure_is_absorbed:
  assumes "fst (cache_addAll w CACHE_NAME urlsToCache (caches_open CACHE_NAME st)) = Rejected e"
  shows "fst (install w st) = Fulfilled () \<and>
         \<not> waitUntil_fails (fst (install w st)) \<and>
         skipWaitingCalled (snd (install w st)) = skipWaitingCalled st"
proof -
  obtain pA st2 where
    A: "cache_addAll w CACHE_NAME urlsToCache (caches_open CACHE_NAME st) = (pA, st2)"
    by (cases "cache_addAll w CACHE_NAME urlsToCache (caches_open CACHE_NAME st)")
  obtain pB st4 where
    B: "cache_addAll w API_CACHE_NAME API_ENDPOINTS (caches_open API_CACHE_NAME st2) = (pB, st4)"
    by (cases "cache_addAll w API_CACHE_NAME API_ENDPOINTS (caches_open API_CACHE_NAME st2)")
  from assms A have pA: "pA = Rejected e" by simp
  have inst: "install w st = (Fulfilled (), st4)"
    by (simp add: install_def Let_def A B pA)
  have "skipWaitingCalled st2 = skipWaitingCalled st"
    using skipWaiting_addAll [of w CACHE_NAME urlsToCache "caches_open CACHE_NAME st"] A
    by (simp add: skipWaiting_caches_open)
  moreover have "skipWaitingCalled st4 = skipWaitingCalled st2"
    using skipWaiting_addAll [of w API_CACHE_NAME API_ENDPOINTS "caches_open API_CACHE_NAME st2"] B
    by (simp add: skipWaiting_caches_open)
  ultimately show ?thesis
    by (simp add: inst waitUntil_fails_def)
qed

text \<open>With no network and no store, the asset precache is rejected and install still fulfils.\<close>

theorem install_failure_is_absorbed_witness:
  "fst (cache_addAll offline_world CACHE_NAME urlsToCache (caches_open CACHE_NAME (state_with [])))
     = Rejected (TypeError ''addAll'') \<and>
   fst (install offline_world (state_with [])) = Fulfilled () \<and>
   skipWaitingCalled (snd (install offline_world (state_with []))) = False"
  using install_failure_is_absorbed [of offline_world "state_with []" "TypeError ''addAll''"]
  by (simp add: cache_addAll_def Let_def urlsToCache_def offline_world_def state_with_def
        caches_open_def)

text \<open>
  C1 as the specification words it fails on the same input: the asset precache is
  rejected, yet the promise given to \<open>waitUntil\<close> does not signal a failure.
\<close>

theorem install_failure_not_signalled:
  "waitUntil_fails
     (fst (cache_addAll offline_world CACHE_NAME urlsToCache
             (caches_open CACHE_NAME (state_with [])))) \<and>
   \<not> waitUntil_fails (fst (install offline_world (state_with [])))"
  by (simp add: install_def cache_addAll_def Let_def urlsToCache_def API_ENDPOINTS_def
        offline_world_def waitUntil_fails_def promise_catch_def)

section \<open>The API handler\<close>

lemma apiFallback_eq:
  "apiFallback st request =
     (Fulfilled (Some (case storage_match (caches st) (url request) of
                         Some cached \<Rightarrow> cached | None \<Rightarrow> emptyJsonResponse)), st)"
  by (simp add: apiFallback_def caches_match_def split: option.split)

lemma handleApiRequest_failed:
  "network_failed w request \<Longrightarrow>
   handleApiRequest w st request = apiFallback (st\<lparr>fetched := fetched st @ [request]\<rparr>) request"
  by (auto simp: handleApiRequest_def net_fetch_def network_failed_def split: promise.splits)

lemma handleApiRequest_ok:
  "fetch w request = Fulfilled r \<Longrightarrow> ok r \<Longrightarrow>
   fst (handleApiRequest w st request) = Fulfilled (Some r)"
  by (simp add: handleApiRequest_def net_fetch_def Let_def split: prod.split)

text \<open>
  C2. The API handler always resolves to a response, never to a rejection or to
  \<open>undefined\<close>. When the network call threw or answered with a status that is not
  ok, the request is looked up in the stores: an entry found is the answer, and with
  no entry the answer is the synthesized response, whose body is the empty JSON array
  and whose \<open>Content-Type\<close> is \<open>application/json\<close>.
\<close>

theorem api_request_never_fails:
  "(\<exists>r. fst (handleApiRequest w st request) = Fulfilled (Some r)) \<and>
   (network_failed w request \<longrightarrow>
      (\<forall>cached. caches_match st (url request) = Fulfilled (Some cached) \<longrightarrow>
          fst (handleApiRequest w st request) = Fulfilled (Some cached)) \<and>
      (caches_match st (url request) = Fulfilled None \<longrightarrow>
          fst (handleApiRequest w st request) = Fulfilled (Some emptyJsonResponse))) \<and>
   body emptyJsonResponse = ''[]'' \<and>
   headers_get (headers emptyJsonResponse) ''Content-Type'' = Some ''application/json''"
proof -
  have always: "\<exists>r. fst (handleApiRequest w st request) = Fulfilled (Some r)"
  proof (cases "network_failed w request")
    case True
    then show ?thesis by (simp add: handleApiRequest_failed apiFallback_eq)
  next
    case False
    then obtain r where "fetch w request = Fulfilled r" "ok r"
      by (auto simp: network_failed_def split: promise.splits)
    then show ?thesis by (simp add: handleApiRequest_ok)
  qed
  have failed: "network_failed w request \<Longrightarrow>
      fst (handleApiRequest w st request) =
        Fulfilled (Some (case storage_match (caches st) (url request) of
                           Some cached \<Rightarrow> cached | None \<Rightarrow> emptyJsonResponse))"
    by (simp add: handleApiRequest_failed apiFallback_eq)
  have synth: "body emptyJsonResponse = ''[]'' \<and>
      headers_get (headers emptyJsonResponse) ''Content-Type'' = Some ''application/json''"
    by (simp add: emptyJsonResponse_def headers_get_def)
  from always failed synth show ?thesis
    by (simp add: caches_match_def)
qed

text \<open>Offline, with the request stored: the stored snapshot. Offline, nothing stored: \<open>[]\<close>.\<close>

theorem api_request_never_fails_witness:
  "network_failed offline_world
      (get_request ''https://jsonplaceholder.typicode.com/posts'' ''cors'' []) \<and>
   fst (handleApiRequest offline_world
          (state_with [(''zaq_api_cache_v3'',
             [(''https://jsonplaceholder.typicode.com/posts'', page ''[7]'')])])
          (get_request ''https://jsonplaceholder.typicode.com/posts'' ''cors'' []))
     = Fulfilled (Some (page ''[7]'')) \<and>
   fst (handleApiRequest offline_world (state_with [])
          (get_request ''https://jsonplaceholder.typicode.com/posts'' ''cors'' []))
     = Fulfilled (Some emptyJsonResponse)"
  using api_request_never_fails [of offline_world
          "state_with [(''zaq_api_cache_v3'',
             [(''https://jsonplaceholder.typicode.com/posts'', page ''[7]'')])]"
          "get_request ''https://jsonplaceholder.typicode.com/posts'' ''cors'' []"]
        api_request_never_fails [of offline_world "state_with []"
          "get_request ''https://jsonplaceholder.typicode.com/posts'' ''cors'' []"]
  by (simp add: network_failed_def offline_world_def state_with_def get_request_def
        caches_match_def)

text \<open>
  C10. On the failure path of the API handler (the call threw, or the status is not
  ok) the cache storage is left exactly as it was: no store is created, written or
  deleted.
\<close>

theorem api_failure_writes_nothing:
  "network_failed w request \<Longrightarrow> caches (snd (handleApiRequest w st request)) = caches st"
  by (simp add: handleApiRequest_failed apiFallback_eq)

text \<open>Offline, the one stored entry is still the whole storage afterwards.\<close>

theorem api_failure_writes_nothing_witness:
  "network_failed offline_world
      (get_request ''https://jsonplaceholder.typicode.com/posts'' ''cors'' []) \<and>
   caches (snd (handleApiRequest offline_world
          (state_with [(''zaq_api_cache_v3'',
             [(''https://jsonplaceholder.typicode.com/posts'', page ''[7]'')])])
          (get_request ''https://jsonplaceholder.typicode.com/posts'' ''cors'' [])))
     = [(''zaq_api_cache_v3'', [(''https://jsonplaceholder.typicode.com/posts'', page ''[7]'')])]"
  using api_failure_writes_nothing [of offline_world
          "get_request ''https://jsonplaceholder.typicode.com/posts'' ''cors'' []"
          "state_with [(''zaq_api_cache_v3'',
             [(''https://jsonplaceholder.typicode.com/posts'', page ''[7]'')])]"]
  by (simp add: network_failed_def offline_world_def state_with_def get_request_def)

section \<open>The navigation handler\<close>

lemma navigation_miss_failed:
  "caches_match st (url request) = Fulfilled None \<Longrightarrow> network_failed w request \<Longrightarrow>
   handleNavigationRequest w st request =
     navigationFallback w (st\<lparr>fetched := fetched st @ [request]\<rparr>)"
  by (auto simp: handleNavigationRequest_def net_fetch_def network_failed_def
        split: promise.splits)

text \<open>
  C4. When the stores hold an entry for the navigation request, the handler answers
  with that entry and leaves the state as it was; in particular the record of network
  calls has not grown: no call was made.
\<close>

theorem navigation_cache_hit_no_network:
  "caches_match st (url request) = Fulfilled (Some cachedPage) \<Longrightarrow>
   handleNavigationRequest w st request = (Fulfilled (Some cachedPage), st) \<and>
   fetched (snd (handleNavigationRequest w st request)) = fetched st"
  by (simp add: handleNavigationRequest_def)

text \<open>A stored page is served although the network would have thrown.\<close>

theorem navigation_cache_hit_no_network_witness:
  "caches_match
      (state_with [(''zaq_myapp_v5'', [(''https://zaq.example/about.html'', page ''about'')])])
      (url (get_request ''https://zaq.example/about.html'' ''navigate'' []))
     = Fulfilled (Some (page ''about'')) \<and>
   handleNavigationRequest flaky_world
      (state_with [(''zaq_myapp_v5'', [(''https://zaq.example/about.html'', page ''about'')])])
      (get_request ''https://zaq.example/about.html'' ''navigate'' [])
     = (Fulfilled (Some (page ''about'')),
        state_with [(''zaq_myapp_v5'', [(''https://zaq.example/about.html'', page ''about'')])])"
  using navigation_cache_hit_no_network [of
      "state_with [(''zaq_myapp_v5'', [(''https://zaq.example/about.html'', page ''about'')])]"
      "get_request ''https://zaq.example/about.html'' ''navigate'' []" "page ''about''" flaky_world]
  by (simp add: caches_match_def state_with_def get_request_def)

text \<open>
  C5. A navigation request with no entry of its own and a failed network call is
  answered with the stored offline page when there is one, and with the stored index
  page when the offline page is missing and the index page is there.
\<close>

theorem navigation_offline_then_index:
  assumes "caches_match st (url request) = Fulfilled None"
    and "network_failed w request"
  shows "(\<forall>offlinePage.
            caches_match st (resolve w ''./offline.html'') = Fulfilled (Some offlinePage) \<longrightarrow>
            fst (handleNavigationRequest w st request) = Fulfilled (Some offlinePage)) \<and>
         (\<forall>indexPage.
            caches_match st (resolve w ''./offline.html'') = Fulfilled None \<and>
            caches_match st (resolve w ''./index.html'') = Fulfilled (Some indexPage) \<longrightarrow>
            fst (handleNavigationRequest w st request) = Fulfilled (Some indexPage))"
  using assms
  by (simp add: navigation_miss_failed navigationFallback_def caches_match_def)

text \<open>Offline, first with both pages stored, then with the index page only.\<close>

theorem navigation_offline_then_index_witness:
  "network_failed offline_world (get_request ''https://zaq.example/news.html'' ''navigate'' []) \<and>
   fst (handleNavigationRequest offline_world
      (state_with [(''zaq_myapp_v5'',
         [(''https://zaq.example/offline.html'', page ''offline''),
          (''https://zaq.example/index.html'', page ''index'')])])
      (get_request ''https://zaq.example/news.html'' ''navigate'' []))
     = Fulfilled (Some (page ''offline'')) \<and>
   fst (handleNavigationRequest offline_world
      (state_with [(''zaq_myapp_v5'', [(''https://zaq.example/index.html'', page ''index'')])])
      (get_request ''https://zaq.example/news.html'' ''navigate'' []))
     = Fulfilled (Some (page ''index''))"
  using navigation_offline_then_index [of
      "state_with [(''zaq_myapp_v5'',
         [(''https://zaq.example/offline.html'', page ''offline''),
          (''https://zaq.example/index.html'', page ''index'')])]"
      "get_request ''https://zaq.example/news.html'' ''navigate'' []" offline_world]
    navigation_offline_then_index [of
      "state_with [(''zaq_myapp_v5'', [(''https://zaq.example/index.html'', page ''index'')])]"
      "get_request ''https://zaq.example/news.html'' ''navigate'' []" offline_world]
  by (simp add: caches_match_def state_with_def get_request_def network_failed_def
        offline_world_def ex_resolve_def)

section \<open>The asset handler\<close>

lemma app_miss_failed:
  "caches_match st (url request) = Fulfilled None \<Longrightarrow> network_failed w request \<Longrightarrow>
   handleAppRequest w st request =
     appFallback w (st\<lparr>fetched := fetched st @ [request]\<rparr>) request"
  by (auto simp: handleAppRequest_def net_fetch_def network_failed_def
        split: promise.splits)

text \<open>
  What the asset handler does on its HTML branch, for every input: the promise of the
  offline-page lookup is returned, and the index page is never consulted.
\<close>

lemma app_html_fallback_is_offline_lookup:
  "caches_match st (url request) = Fulfilled None \<Longrightarrow> network_failed w request \<Longrightarrow>
   acceptsHtml request \<Longrightarrow>
   fst (handleAppRequest w st request) =
     Fulfilled (storage_match (caches st) (resolve w ''./offline.html''))"
  by (simp add: app_miss_failed appFallback_def js_or_def truthy_def caches_match_def)

text \<open>
  The listener sends no request with an HTML accept header to the asset handler: such
  a request is a navigation. The HTML branch of the asset handler (line 200) is
  reached only when the handler is called on its own.
\<close>

lemma asset_class_has_no_html_accept:
  "spec_classify w request = SameOriginAsset \<Longrightarrow> \<not> acceptsHtml request"
  by (auto simp: spec_classify_def split: if_splits)

text \<open>
  Called on its own, outside the listener: an asset request that accepts HTML, with no
  entry of its own, no network, no offline page stored and the index page stored,
  resolves to \<open>undefined\<close>.
\<close>

lemma handleAppRequest_alone_skips_index:
  "fst (handleAppRequest offline_world
      (state_with [(''zaq_myapp_v5'', [(''https://zaq.example/index.html'', page ''index'')])])
      (get_request ''https://zaq.example/help'' ''same-origin'' [(''accept'', ''text/html'')]))
     = Fulfilled None"
  by (simp add: handleAppRequest_def appFallback_def js_or_def truthy_def net_fetch_def
        caches_match_def state_with_def get_request_def
        offline_world_def acceptsHtml_def headers_get_def ex_resolve_def)





text \<open>
  C8. An asset request with no entry of its own, a failed network call and no HTML in
  its accept header is answered with the synthesized response: status 503 and the
  fixed body.
\<close>

theorem asset_offline_503:
  assumes "caches_match st (url request) = Fulfilled None"
    and "network_failed w request"
    and "\<not> acceptsHtml request"
  shows "fst (handleAppRequest w st request) = Fulfilled (Some offlineResponse) \<and>
         status offlineResponse = 503 \<and>
         body offlineResponse = ''Offline - Service worker failed to fetch content''"
  using assms by (simp add: app_miss_failed appFallback_def offlineResponse_def)

text \<open>An image requested offline, not stored.\<close>

theorem asset_offline_503_witness:
  "\<not> acceptsHtml
      (get_request ''https://zaq.example/logo.png'' ''no-cors'' [(''accept'', ''image/png,*/*'')]) \<and>
   network_failed offline_world
      (get_request ''https://zaq.example/logo.png'' ''no-cors'' [(''accept'', ''image/png,*/*'')]) \<and>
   fst (handleAppRequest offline_world
      (state_with [(''zaq_myapp_v5'', [(''https://zaq.example/index.html'', page ''index'')])])
      (get_request ''https://zaq.example/logo.png'' ''no-cors'' [(''accept'', ''image/png,*/*'')]))
     = Fulfilled (Some \<lparr>status = 503, statusText = ''Service Unavailable'', headers = [],
          body = ''Offline - Service worker failed to fetch content''\<rparr>)"
  using asset_offline_503 [of
      "state_with [(''zaq_myapp_v5'', [(''https://zaq.example/index.html'', page ''index'')])]"
      "get_request ''https://zaq.example/logo.png'' ''no-cors'' [(''accept'', ''image/png,*/*'')]"
      offline_world]
  by (simp add: caches_match_def state_with_def get_request_def network_failed_def
        offline_world_def acceptsHtml_def headers_get_def offlineResponse_def)

section \<open>Classification\<close>

text \<open>
  C7. The listener does, for every request, what the strategy of the request's class
  does, the class being that of the first rule that matches, in the order: extension
  scheme, API hostname, navigation mode or HTML accept header, same origin, otherwise
  the default.
\<close>

theorem fetch_listener_first_match:
  "fetch_listener w st request = spec_strategy (spec_classify w request) w st request"
  by (simp add: fetch_listener_def spec_strategy_def spec_classify_def Let_def)

text \<open>
  One request of each class; the second is a navigation to the API host and the fourth
  a cross-origin request that accepts HTML, to show the precedence.
\<close>

theorem fetch_listener_first_match_witness:
  "spec_classify offline_world
      (get_request ''chrome-extension://abcdef/popup.js'' ''no-cors'' []) = Ignored \<and>
   fetch_listener offline_world (state_with [])
      (get_request ''chrome-extension://abcdef/popup.js'' ''no-cors'' []) = (None, state_with []) \<and>
   spec_classify offline_world
      (get_request ''https://jsonplaceholder.typicode.com/posts?_limit=5'' ''navigate''
         [(''accept'', ''text/html'')]) = ExternalApi \<and>
   spec_classify offline_world
      (get_request ''https://zaq.example/about.html'' ''navigate'' []) = Navigation \<and>
   spec_classify offline_world
      (get_request ''https://cdn.example/doc'' ''cors'' [(''accept'', ''application/xml,text/html'')])
      = Navigation \<and>
   spec_classify offline_world
      (get_request ''https://zaq.example/main.css'' ''no-cors'' [(''accept'', ''text/css'')])
      = SameOriginAsset \<and>
   fetch_listener offline_world (state_with [])
      (get_request ''https://zaq.example/main.css'' ''no-cors'' [(''accept'', ''text/css'')])
      = respondWith (handleAppRequest offline_world (state_with [])
          (get_request ''https://zaq.example/main.css'' ''no-cors'' [(''accept'', ''text/css'')])) \<and>
   spec_classify offline_world
      (get_request ''https://cdn.example/lib.js'' ''no-cors'' []) = Other"
  using fetch_listener_first_match [of offline_world "state_with []"
      "get_request ''chrome-extension://abcdef/popup.js'' ''no-cors'' []"]
    fetch_listener_first_match [of offline_world "state_with []"
      "get_request ''https://zaq.example/main.css'' ''no-cors'' [(''accept'', ''text/css'')]"]
  by (simp add: spec_classify_def spec_strategy_def get_request_def offline_world_def ex_URL_def
        acceptsHtml_def headers_get_def)

section \<open>Background sync\<close>

lemma store_lookup_fetched [simp]:
  "store_lookup n (st\<lparr>fetched := f\<rparr>) k = store_lookup n st k"
  by (simp add: store_lookup_def)













end
